theory Spec2Isabelle
  imports Main "HOL-Library.Char_ord" "HOL-Library.List_Lexorder" "HOL-Library.Sublist"
begin

section \<open>Python strings\<close>

text \<open>
  A Python \<open>str\<close> is modelled as a \<open>string\<close>: a list of characters, one \<open>char\<close>
  per code point. The characters of the model are the code points U+0000 to U+00FF, and
  the classes below are the ones Python's \<open>str\<close> methods and the \<open>re\<close> module (on \<open>str\<close>
  patterns) use on that range.
\<close>

definition chr_in :: "nat \<Rightarrow> nat \<Rightarrow> char \<Rightarrow> bool" where
  "chr_in lo hi c = (lo \<le> of_char c \<and> (of_char c :: nat) \<le> hi)"

definition is_space :: "char \<Rightarrow> bool" where
  \<comment> \<open>\<open>str.isspace\<close> and the class \<open>\s\<close>: TAB to CR, FS to US, the space, NEL, NBSP\<close>
  "is_space c = (chr_in 9 13 c \<or> chr_in 28 32 c \<or> of_char c = (133::nat) \<or> of_char c = (160::nat))"

definition is_digit :: "char \<Rightarrow> bool" where
  \<comment> \<open>the class \<open>\d\<close>\<close>
  "is_digit c = chr_in 48 57 c"

definition is_ascii_alpha :: "char \<Rightarrow> bool" where
  \<comment> \<open>the class \<open>[a-zA-Z]\<close>\<close>
  "is_ascii_alpha c = (chr_in 97 122 c \<or> chr_in 65 90 c)"

definition is_alnum :: "char \<Rightarrow> bool" where
  \<comment> \<open>\<open>str.isalnum\<close>: the ASCII letters and digits, and the letters and numbers of Latin-1\<close>
  "is_alnum c = (is_ascii_alpha c \<or> is_digit c \<or> of_char c = (170::nat) \<or> chr_in 178 179 c
     \<or> of_char c = (181::nat) \<or> chr_in 185 186 c \<or> chr_in 188 190 c \<or> chr_in 192 214 c
     \<or> chr_in 216 246 c \<or> chr_in 248 255 c)"

definition is_word :: "char \<Rightarrow> bool" where
  \<comment> \<open>the class \<open>\w\<close>\<close>
  "is_word c = (is_alnum c \<or> c = CHR ''_'')"

definition strip :: "string \<Rightarrow> string" where
  \<comment> \<open>\<open>str.strip()\<close>\<close>
  "strip s = rev (dropWhile is_space (rev (dropWhile is_space s)))"

definition lower_char :: "char \<Rightarrow> char" where
  "lower_char c = (if chr_in 65 90 c \<or> chr_in 192 214 c \<or> chr_in 216 222 c
                   then char_of (of_char c + (32::nat)) else c)"

definition lower :: "string \<Rightarrow> string" where
  \<comment> \<open>\<open>str.lower()\<close>\<close>
  "lower s = map lower_char s"

fun join :: "string \<Rightarrow> string list \<Rightarrow> string" where
  \<comment> \<open>\<open>sep.join(xs)\<close>\<close>
  "join sep [] = []"
| "join sep [x] = x"
| "join sep (x # y # ys) = x @ sep @ join sep (y # ys)"

fun starts_with :: "string \<Rightarrow> string \<Rightarrow> bool" where
  \<comment> \<open>\<open>s.startswith(p)\<close>, written \<open>starts_with p s\<close>\<close>
  "starts_with [] s = True"
| "starts_with (p # ps) [] = False"
| "starts_with (p # ps) (c # cs) = (p = c \<and> starts_with ps cs)"

fun split_on :: "char \<Rightarrow> string \<Rightarrow> string list" where
  \<comment> \<open>\<open>s.split(sep)\<close> for a separator of one character\<close>
  "split_on sep [] = [[]]"
| "split_on sep (c # cs) =
     (if c = sep then [] # split_on sep cs
      else (case split_on sep cs of [] \<Rightarrow> [[c]] | w # ws \<Rightarrow> (c # w) # ws))"

function ws_split :: "string \<Rightarrow> string list" where
  \<comment> \<open>the maximal runs of characters that are not whitespace: \<open>re.findall(r"\S+", s)\<close>\<close>
  "ws_split [] = []"
| "ws_split (c # cs) =
     (if is_space c then ws_split cs
      else takeWhile (\<lambda>x. \<not> is_space x) (c # cs) # ws_split (dropWhile (\<lambda>x. \<not> is_space x) cs))"
  by pat_completeness auto
termination
  by (relation "measure length") (auto simp: less_Suc_eq_le length_dropWhile_le)

section \<open>Text normalisation\<close>

function collapse_ws :: "string \<Rightarrow> string" where
  \<comment> \<open>\<open>re.sub(r'\s+', ' ', s)\<close>: every maximal run of whitespace becomes one space\<close>
  "collapse_ws [] = []"
| "collapse_ws (c # cs) =
     (if is_space c then CHR '' '' # collapse_ws (dropWhile is_space cs)
      else c # collapse_ws cs)"
  by pat_completeness auto
termination
  by (relation "measure length") (auto simp: less_Suc_eq_le length_dropWhile_le)

definition keep_char :: "char \<Rightarrow> bool" where
  \<comment> \<open>the characters outside the class \<open>[^\w\s.,;?!@\-_+()/#]\<close>\<close>
  "keep_char c = (is_word c \<or> is_space c \<or> c \<in> set ''.,;?!@-_+()/#'')"

definition clean_text :: "string \<Rightarrow> string" where
  "clean_text text =
     (if text = [] then []
      else filter keep_char (collapse_ws (strip text)))"

section \<open>Regular expressions\<close>

text \<open>
  The patterns of the source that only decide whether a string matches are written as
  values of \<open>rexp\<close>. A match of the whole string is decided by derivatives; \<open>lang\<close> is
  the set of strings a pattern denotes.
\<close>

datatype rexp =
    Never
  | Empty
  | Cls "char \<Rightarrow> bool"
  | Alt rexp rexp
  | Seq rexp rexp
  | Star rexp

inductive_set star :: "string set \<Rightarrow> string set" for A :: "string set" where
  star_nil: "[] \<in> star A"
| star_app: "u \<in> A \<Longrightarrow> v \<in> star A \<Longrightarrow> u @ v \<in> star A"

fun lang :: "rexp \<Rightarrow> string set" where
  "lang Never = {}"
| "lang Empty = {[]}"
| "lang (Cls P) = {[c] | c. P c}"
| "lang (Alt r s) = lang r \<union> lang s"
| "lang (Seq r s) = {u @ v | u v. u \<in> lang r \<and> v \<in> lang s}"
| "lang (Star r) = star (lang r)"

fun nullable :: "rexp \<Rightarrow> bool" where
  "nullable Never = False"
| "nullable Empty = True"
| "nullable (Cls P) = False"
| "nullable (Alt r s) = (nullable r \<or> nullable s)"
| "nullable (Seq r s) = (nullable r \<and> nullable s)"
| "nullable (Star r) = True"

fun deriv :: "char \<Rightarrow> rexp \<Rightarrow> rexp" where
  "deriv c Never = Never"
| "deriv c Empty = Never"
| "deriv c (Cls P) = (if P c then Empty else Never)"
| "deriv c (Alt r s) = Alt (deriv c r) (deriv c s)"
| "deriv c (Seq r s) =
     (if nullable r then Alt (Seq (deriv c r) s) (deriv c s) else Seq (deriv c r) s)"
| "deriv c (Star r) = Seq (deriv c r) (Star r)"

fun full_match :: "rexp \<Rightarrow> string \<Rightarrow> bool" where
  "full_match r [] = nullable r"
| "full_match r (c # cs) = full_match (deriv c r) cs"

definition re_match_anchored :: "rexp \<Rightarrow> string \<Rightarrow> bool" where
  \<comment> \<open>\<open>re.match(r'^...$', s)\<close> is not None: \<open>$\<close> matches at the end of the string and
      just before a newline that ends the string\<close>
  "re_match_anchored r s =
     (full_match r s \<or> (s \<noteq> [] \<and> last s = CHR 0x0A \<and> full_match r (butlast s)))"

definition lit :: "char \<Rightarrow> rexp" where
  "lit c = Cls (\<lambda>x. x = c)"

definition one_or_more :: "rexp \<Rightarrow> rexp" where
  \<comment> \<open>\<open>r+\<close>\<close>
  "one_or_more r = Seq r (Star r)"

definition two_or_more :: "rexp \<Rightarrow> rexp" where
  \<comment> \<open>\<open>r{2,}\<close>\<close>
  "two_or_more r = Seq r (Seq r (Star r))"

section \<open>Email validation\<close>

definition local_char :: "char \<Rightarrow> bool" where
  \<comment> \<open>the class \<open>[a-zA-Z0-9._%+-]\<close>\<close>
  "local_char c = (is_ascii_alpha c \<or> is_digit c \<or> c \<in> set ''._%+-'')"

definition domain_char :: "char \<Rightarrow> bool" where
  \<comment> \<open>the class \<open>[a-zA-Z0-9.-]\<close>\<close>
  "domain_char c = (is_ascii_alpha c \<or> is_digit c \<or> c \<in> set ''.-'')"

definition email_re :: rexp where
  \<comment> \<open>\<open>[a-zA-Z0-9._%+-]+@[a-zA-Z0-9.-]+\.[a-zA-Z]{2,}\<close>\<close>
  "email_re =
     Seq (one_or_more (Cls local_char))
       (Seq (lit CHR ''@'')
         (Seq (one_or_more (Cls domain_char))
           (Seq (lit CHR ''.'') (two_or_more (Cls is_ascii_alpha)))))"

definition validate_email :: "string \<Rightarrow> string" where
  "validate_email email =
     (if email = [] then []
      else (let email' = strip (lower email)
            in if re_match_anchored email_re email' then email' else []))"

definition email_shape :: "string \<Rightarrow> bool" where
  \<comment> \<open>the shape the specification words: a local part, \<open>@\<close>, domain labels, a dot and
      a top-level label of at least two letters\<close>
  "email_shape e =
     (\<exists>l d t. e = l @ ''@'' @ d @ ''.'' @ t
        \<and> l \<noteq> [] \<and> list_all local_char l
        \<and> d \<noteq> [] \<and> list_all domain_char d
        \<and> 2 \<le> length t \<and> list_all is_ascii_alpha t)"

section \<open>The document tree\<close>

text \<open>
  The source reads markup through the \<open>bs4\<close> library. Its tree is modelled as a datatype:
  a tag has a name, a dictionary of attributes (an association list; every key occurs
  once) and its children in document order; the other nodes are strings. The parser and
  the serialiser of the library are parameters of the functions that call them.
\<close>

datatype node =
    Tag string "(string \<times> string) list" "node list"
  | NavigableString string
  | Comment string

datatype py_exception = ParserRejectedMarkup | TypeError

fun descendants :: "node \<Rightarrow> node list" where
  \<comment> \<open>\<open>tag.descendants\<close>: every node below the tag, in document order\<close>
  "descendants (Tag n a cs) = concat (map (\<lambda>c. c # descendants c) cs)"
| "descendants (NavigableString s) = []"
| "descendants (Comment s) = []"

fun located :: "node list \<Rightarrow> node \<Rightarrow> (node \<times> node list) list" where
  \<comment> \<open>the descendants, each with its ancestors (\<open>element.parents\<close>), the nearest first\<close>
  "located anc (Tag n a cs) =
     concat (map (\<lambda>c. (c, Tag n a cs # anc) # located (Tag n a cs # anc) c) cs)"
| "located anc (NavigableString s) = []"
| "located anc (Comment s) = []"

fun all_strings :: "node \<Rightarrow> string list" where
  \<comment> \<open>the strings \<open>get_text\<close> and \<open>stripped_strings\<close> read: comments are left out\<close>
  "all_strings (Tag n a cs) = concat (map all_strings cs)"
| "all_strings (NavigableString s) = [s]"
| "all_strings (Comment s) = []"

definition get_text :: "node \<Rightarrow> string" where
  "get_text n = concat (all_strings n)"

definition stripped_strings :: "node \<Rightarrow> string list" where
  "stripped_strings n = filter (\<lambda>s. s \<noteq> []) (map strip (all_strings n))"

definition get_text_strip :: "node \<Rightarrow> string" where
  \<comment> \<open>\<open>get_text(strip=True)\<close>\<close>
  "get_text_strip n = concat (stripped_strings n)"

fun is_tag :: "string \<Rightarrow> node \<Rightarrow> bool" where
  "is_tag name (Tag n a cs) = (n = name)"
| "is_tag name (NavigableString s) = False"
| "is_tag name (Comment s) = False"

fun get_attr :: "string \<Rightarrow> node \<Rightarrow> string option" where
  "get_attr k (Tag n a cs) = map_of a k"
| "get_attr k (NavigableString s) = None"
| "get_attr k (Comment s) = None"

definition has_class :: "string \<Rightarrow> node \<Rightarrow> bool" where
  \<comment> \<open>the filter \<open>class_=c\<close>: \<open>c\<close> is one of the values of the class attribute, or all of them
      joined by spaces\<close>
  "has_class c n =
     (case get_attr ''class'' n of
        None \<Rightarrow> False
      | Some v \<Rightarrow> c \<in> set (ws_split v) \<or> join '' '' (ws_split v) = c)"

definition find_all :: "(node \<Rightarrow> bool) \<Rightarrow> node \<Rightarrow> node list" where
  "find_all p n = filter p (descendants n)"

definition find :: "(node \<Rightarrow> bool) \<Rightarrow> node \<Rightarrow> node option" where
  "find p n = (case find_all p n of [] \<Rightarrow> None | x # xs \<Rightarrow> Some x)"

definition by_class :: "string \<Rightarrow> string \<Rightarrow> node \<Rightarrow> bool" where
  \<comment> \<open>the filter \<open>(name, class_=c)\<close>\<close>
  "by_class name c n = (is_tag name n \<and> has_class c n)"

definition with_href :: "node \<Rightarrow> bool" where
  \<comment> \<open>the filter \<open>("a", href=True)\<close>\<close>
  "with_href n = (is_tag ''a'' n \<and> get_attr ''href'' n \<noteq> None)"

fun contains :: "string \<Rightarrow> string \<Rightarrow> bool" where
  \<comment> \<open>\<open>sub in s\<close>, written \<open>contains sub s\<close>\<close>
  "contains sub [] = (sub = [])"
| "contains sub (c # cs) = (starts_with sub (c # cs) \<or> contains sub cs)"

definition partner_type_id :: "node \<Rightarrow> bool" where
  \<comment> \<open>the filter \<open>("span", id=lambda x: x and "resultsPartnerType" in x)\<close>\<close>
  "partner_type_id n =
     (is_tag ''span'' n \<and>
      (case get_attr ''id'' n of
         None \<Rightarrow> False
       | Some x \<Rightarrow> x \<noteq> [] \<and> contains ''resultsPartnerType'' x))"

section \<open>Searching with a group\<close>

fun re_search :: "(string \<Rightarrow> 'a option) \<Rightarrow> string \<Rightarrow> 'a option" where
  \<comment> \<open>\<open>re.search\<close>: the match at the leftmost position that has one\<close>
  "re_search m [] = m []"
| "re_search m (c # cs) = (case m (c # cs) of Some g \<Rightarrow> Some g | None \<Rightarrow> re_search m cs)"

definition match_sort_score :: "string \<Rightarrow> string option" where
  \<comment> \<open>group 1 of \<open>sortScore\s*:\s*(\d+\.?\d*)\<close> matched at the start of the string\<close>
  "match_sort_score s =
     (if starts_with ''sortScore'' s then
        (case dropWhile is_space (drop (length ''sortScore'') s) of
           [] \<Rightarrow> None
         | c # r \<Rightarrow>
             if c = CHR '':'' then
               (let r' = dropWhile is_space r; d = takeWhile is_digit r'
                in if d = [] then None
                   else (case dropWhile is_digit r' of
                           [] \<Rightarrow> Some d
                         | c' # r'' \<Rightarrow>
                             if c' = CHR ''.'' then Some (d @ ''.'' @ takeWhile is_digit r'')
                             else Some d))
             else None)
      else None)"

definition match_locations :: "string \<Rightarrow> string option" where
  \<comment> \<open>group 1 of \<open>Locations:\s*(\d+)\<close> matched at the start of the string\<close>
  "match_locations s =
     (if starts_with ''Locations:'' s then
        (let d = takeWhile is_digit (dropWhile is_space (drop (length ''Locations:'') s))
         in if d = [] then None else Some d)
      else None)"

section \<open>Address components\<close>

fun truthy :: "node \<Rightarrow> bool" where
  \<comment> \<open>the truth value of an element: a tag is always true, a string when it is not empty\<close>
  "truthy (Tag n a cs) = True"
| "truthy (NavigableString s) = (s \<noteq> [])"
| "truthy (Comment s) = (s \<noteq> [])"

definition address_parts :: "node \<Rightarrow> string list" where
  \<comment> \<open>\<open>[part.strip() for part in address_span.stripped_strings if part.strip()]\<close>\<close>
  "address_parts address_span =
     map strip (filter (\<lambda>part. strip part \<noteq> []) (stripped_strings address_span))"

definition address_from_parts :: "string list \<Rightarrow> string \<times> string \<times> string \<times> string" where
  "address_from_parts parts =
     (let street = (if 1 \<le> length parts then parts ! 0 else []);
          city = (if 2 \<le> length parts then parts ! 1 else []);
          (state, country) =
            (if 3 \<le> length parts then
               (let state_country = split_on CHR '','' (parts ! 2)
                in if length state_country = 2
                   then (strip (state_country ! 0), strip (state_country ! 1))
                   else (parts ! 2, []))
             else ([], []));
          country' = (if 4 \<le> length parts \<and> country = [] then parts ! 3
                      else country)
      in (clean_text street, clean_text city, clean_text state, clean_text country'))"

definition address_try :: "node \<Rightarrow> py_exception + string \<times> string \<times> string \<times> string" where
  \<comment> \<open>the body of the \<open>try\<close>: \<open>find\<close> with a keyword argument is a method of tags only, on
      a string it is \<open>str.find\<close> and raises\<close>
  "address_try address_td =
     (case address_td of
        Tag n a cs \<Rightarrow>
          (case find (by_class ''span'' ''pl-results-td-contact-plocez__Address__c'') address_td of
             None \<Rightarrow> Inr ([], [], [], [])
           | Some address_span \<Rightarrow> Inr (address_from_parts (address_parts address_span)))
      | NavigableString s \<Rightarrow> Inl TypeError
      | Comment s \<Rightarrow> Inl TypeError)"

definition extract_address_components :: "node option \<Rightarrow> string \<times> string \<times> string \<times> string" where
  "extract_address_components address_td =
     (case address_td of
        None \<Rightarrow> ([], [], [], [])
      | Some td \<Rightarrow>
          if \<not> truthy td then ([], [], [], [])
          else (case address_try td of
                  Inl e \<Rightarrow> ([], [], [], [])
                | Inr r \<Rightarrow> r))"

section \<open>The row extractor\<close>

type_synonym py_dict = "(string \<times> string) list"

definition required_fields :: "string list" where
  \<comment> \<open>the keys of \<open>self.required_fields\<close>, in insertion order\<close>
  "required_fields =
     [''Number'', ''Siemens Batch'', ''Name'', ''Partner Batch'', ''Locations'',
      ''Office address'', ''Contact Name'', ''Contact Email'', ''Contact Telephone'',
      ''Contact website'', ''Proced Specialization'']"

definition number_text :: "node \<Rightarrow> string" where
  "number_text soup =
     (case find (by_class ''span'' ''pl-results-row-no'') soup of
        None \<Rightarrow> []
      | Some number_tag \<Rightarrow> clean_text (get_text number_tag))"

definition siemens_batch :: "node \<Rightarrow> string" where
  "siemens_batch soup =
     (case find (by_class ''td'' ''sf-hidden'') soup of
        None \<Rightarrow> []
      | Some hidden_td \<Rightarrow>
          (case re_search match_sort_score (get_text_strip hidden_td) of
             None \<Rightarrow> []
           | Some g \<Rightarrow> g))"

definition partner_name :: "node \<Rightarrow> string" where
  "partner_name soup =
     (case find (by_class ''a'' ''pl-results-partner-name'') soup of
        None \<Rightarrow> []
      | Some name_tag \<Rightarrow> clean_text (get_text name_tag))"

definition batch_items :: "node \<Rightarrow> node list" where
  "batch_items partner_type_span = find_all (by_class ''li'' ''list-group-item'') partner_type_span"

definition partner_batch :: "node \<Rightarrow> string" where
  "partner_batch soup =
     (case find partner_type_id soup of
        None \<Rightarrow> []
      | Some partner_type_span \<Rightarrow>
          join '', '' (map (\<lambda>item. clean_text (get_text item)) (batch_items partner_type_span)))"

definition locations_text :: "node \<Rightarrow> string" where
  "locations_text soup =
     (case find (by_class ''span'' ''pl-results-partner-info'') soup of
        None \<Rightarrow> []
      | Some partner_info_span \<Rightarrow>
          (case find (by_class ''span'' ''pl-results-partner-count'') partner_info_span of
             None \<Rightarrow> []
           | Some count_span \<Rightarrow>
               (case re_search match_locations (get_text_strip count_span) of
                  None \<Rightarrow> []
                | Some g \<Rightarrow> g)))"

definition mailing_address :: "node \<Rightarrow> node option" where
  "mailing_address soup =
     find (by_class ''span'' ''pl-results-td-address-plocez__Mailing_Address__c'') soup"

definition office_address :: "node \<Rightarrow> string" where
  "office_address soup =
     (case mailing_address soup of
        None \<Rightarrow> []
      | Some address_span \<Rightarrow>
          (case find (by_class ''span'' ''pl-results-value'') address_span of
             None \<Rightarrow> []
           | Some address_detail \<Rightarrow> clean_text (get_text address_span)))"

definition contact_name :: "node \<Rightarrow> string" where
  "contact_name soup =
     (case find (by_class ''span'' ''pl-results-td-contact-plocez__Contact__c'') soup of
        None \<Rightarrow> []
      | Some contact_name_span \<Rightarrow>
          (case find (by_class ''span'' ''pl-results-value'') contact_name_span of
             None \<Rightarrow> []
           | Some contact_detail \<Rightarrow> clean_text (get_text contact_detail)))"

definition contact_email :: "node \<Rightarrow> string" where
  "contact_email soup =
     (case find (by_class ''span'' ''pl-results-td-contact-plocez__Email__c'') soup of
        None \<Rightarrow> []
      | Some email_span \<Rightarrow>
          (case find with_href email_span of
             None \<Rightarrow> []
           | Some mailto \<Rightarrow> validate_email (get_text mailto)))"

definition contact_phone :: "node \<Rightarrow> string" where
  "contact_phone soup =
     (case find (by_class ''span'' ''pl-results-td-contact-plocez__Phone__c'') soup of
        None \<Rightarrow> []
      | Some phone_span \<Rightarrow>
          (case find with_href phone_span of
             None \<Rightarrow> []
           | Some phone_link \<Rightarrow> clean_text (get_text phone_link)))"

definition website_span :: "node \<Rightarrow> node option" where
  "website_span soup = find (by_class ''span'' ''pl-results-td-contact-PLP_Website__c'') soup"

definition web_link :: "node \<Rightarrow> node option" where
  "web_link soup =
     (case website_span soup of
        None \<Rightarrow> None
      | Some ws \<Rightarrow> find with_href ws)"

definition link_href :: "node \<Rightarrow> string" where
  \<comment> \<open>\<open>web_link.get('href', '')\<close>\<close>
  "link_href l = (case get_attr ''href'' l of None \<Rightarrow> [] | Some h \<Rightarrow> h)"

definition contact_website :: "node \<Rightarrow> string" where
  "contact_website soup =
     (case web_link soup of
        None \<Rightarrow> []
      | Some l \<Rightarrow>
          (let href = link_href l
           in if starts_with ''http://'' href \<or> starts_with ''https://'' href then href else []))"

definition spec_container :: "node \<Rightarrow> node option" where
  "spec_container soup =
     find (by_class ''span'' ''pl-results-td-account-Product_Specialization__c'') soup"

definition spec_items :: "node \<Rightarrow> node list" where
  "spec_items soup =
     (case spec_container soup of
        None \<Rightarrow> []
      | Some c \<Rightarrow> find_all (by_class ''li'' ''list-group-item'') c)"

fun add_specs :: "node list \<Rightarrow> string set \<Rightarrow> string set" where
  \<comment> \<open>the loop that fills the set \<open>specializations\<close>\<close>
  "add_specs [] specializations = specializations"
| "add_specs (li # lis) specializations =
     (let spec = clean_text (get_text li)
      in add_specs lis (if spec \<noteq> [] then insert spec specializations else specializations))"

definition specializations :: "node \<Rightarrow> string set" where
  "specializations soup = add_specs (spec_items soup) {}"

definition proced_specialization :: "node \<Rightarrow> string" where
  \<comment> \<open>\<open>", ".join(sorted(specializations))\<close>\<close>
  "proced_specialization soup = join '', '' (sorted_list_of_set (specializations soup))"

definition parse_row_try :: "(string \<Rightarrow> py_exception + node) \<Rightarrow> string \<Rightarrow> py_exception + py_dict" where
  \<comment> \<open>the body of the \<open>try\<close>; \<open>bs\<close> is \<open>BeautifulSoup(_, "html.parser")\<close>\<close>
  "parse_row_try bs html_snippet =
     (case bs html_snippet of
        Inl e \<Rightarrow> Inl e
      | Inr soup \<Rightarrow>
          Inr [(''Number'', number_text soup),
               (''Siemens Batch'', siemens_batch soup),
               (''Name'', partner_name soup),
               (''Partner Batch'', partner_batch soup),
               (''Locations'', locations_text soup),
               (''Office address'', office_address soup),
               (''Contact Name'', contact_name soup),
               (''Contact Email'', contact_email soup),
               (''Contact Telephone'', contact_phone soup),
               (''Contact website'', contact_website soup),
               (''Proced Specialization'', proced_specialization soup)])"

definition parse_partner_row :: "(string \<Rightarrow> py_exception + node) \<Rightarrow> string \<Rightarrow> py_dict" where
  "parse_partner_row bs html_snippet =
     (case parse_row_try bs html_snippet of
        Inr row \<Rightarrow> row
      | Inl e \<Rightarrow> map (\<lambda>field. (field, [])) required_fields)"

section \<open>The document segmenter\<close>

definition row_marker :: "node \<Rightarrow> bool" where
  "row_marker n = by_class ''td'' ''pl-results-td-row-no'' n"

definition partner_rows :: "node \<Rightarrow> (node \<times> node list) list" where
  \<comment> \<open>\<open>soup.find_all("td", class_="pl-results-td-row-no")\<close>, each element with its ancestors\<close>
  "partner_rows soup = filter (\<lambda>e. row_marker (fst e)) (located [] soup)"

definition find_parent :: "string \<Rightarrow> node \<times> node list \<Rightarrow> node option" where
  \<comment> \<open>\<open>element.find_parent(name)\<close>: the nearest ancestor tag of that name\<close>
  "find_parent name e = List.find (is_tag name) (snd e)"

definition py_str :: "(node \<Rightarrow> string) \<Rightarrow> node option \<Rightarrow> string" where
  \<comment> \<open>\<open>str(x)\<close>; \<open>decode\<close> is the serialiser of the library\<close>
  "py_str decode x = (case x of None \<Rightarrow> ''None'' | Some t \<Rightarrow> decode t)"

definition row_html :: "(node \<Rightarrow> string) \<Rightarrow> node \<times> node list \<Rightarrow> string" where
  "row_html decode row_num_td = py_str decode (find_parent ''tr'' row_num_td)"

fun rows_loop ::
  "(string \<Rightarrow> py_exception + node) \<Rightarrow> (node \<Rightarrow> string) \<Rightarrow> (node \<times> node list) list
     \<Rightarrow> py_dict list \<Rightarrow> py_dict list" where
  \<comment> \<open>the loop over \<open>partner_rows\<close>; nothing in its body raises\<close>
  "rows_loop bs decode [] results = results"
| "rows_loop bs decode (row_num_td # rest) results =
     rows_loop bs decode rest (results @ [parse_partner_row bs (row_html decode row_num_td)])"

definition parse_all_partners ::
  "(string \<Rightarrow> py_exception + node) \<Rightarrow> (node \<Rightarrow> string) \<Rightarrow> string \<Rightarrow> py_dict list" where
  "parse_all_partners bs decode html_content =
     (case bs html_content of
        Inl e \<Rightarrow> []
      | Inr soup \<Rightarrow> rows_loop bs decode (partner_rows soup) [])"

subsection \<open>The ancestors of an element\<close>

fun contents :: "node \<Rightarrow> node list" where
  \<comment> \<open>\<open>tag.contents\<close>: the children of a tag\<close>
  "contents (Tag n a cs) = cs"
| "contents (NavigableString s) = []"
| "contents (Comment s) = []"

fun is_path :: "node \<Rightarrow> node list \<Rightarrow> bool" where
  \<comment> \<open>\<open>is_path m [p1, p2, ...]\<close>: \<open>m\<close> is a child of \<open>p1\<close>, \<open>p1\<close> a child of \<open>p2\<close>, and so on\<close>
  "is_path m [] = True"
| "is_path m (p # ps) = (m \<in> set (contents p) \<and> is_path p ps)"

definition ancestor_chain :: "node \<Rightarrow> node \<Rightarrow> node list \<Rightarrow> bool" where
  \<comment> \<open>\<open>anc\<close> lists the parent of \<open>m\<close>, the parent of that parent, and so on up to \<open>root\<close>\<close>
  "ancestor_chain root m anc = (anc \<noteq> [] \<and> last anc = root \<and> is_path m anc)"

section \<open>The names of the specification\<close>

definition spec_field_names :: "string list" where
  \<comment> \<open>the eleven field names as the specification writes them\<close>
  "spec_field_names =
     [''Number'', ''SiemensBatch'', ''Name'', ''PartnerBatch'', ''Locations'',
      ''OfficeAddress'', ''ContactName'', ''ContactEmail'', ''ContactTelephone'',
      ''ContactWebsite'', ''ProcedSpecialization'']"

definition every_item_cleaned :: "node \<Rightarrow> string" where
  \<comment> \<open>the specialization rule as the specification words it: all list items, normalised,
      deduplicated, sorted and joined\<close>
  "every_item_cleaned soup =
     join '', '' (sort (remdups (map (\<lambda>li. clean_text (get_text li)) (spec_items soup))))"

section \<open>Fixtures\<close>

definition failing_parser :: "string \<Rightarrow> py_exception + node" where
  "failing_parser html = Inl ParserRejectedMarkup"

definition parsed_as :: "node \<Rightarrow> string \<Rightarrow> py_exception + node" where
  "parsed_as soup html = Inr soup"

definition document :: "node list \<Rightarrow> node" where
  "document cs = Tag ''[document]'' [] cs"

definition list_item :: "string \<Rightarrow> node" where
  "list_item s = Tag ''li'' [(''class'', ''list-group-item'')] [NavigableString s]"

definition web_row :: "string \<Rightarrow> node" where
  "web_row h =
     document
       [Tag ''span'' [(''class'', ''pl-results-td-contact-PLP_Website__c'')]
          [Tag ''a'' [(''href'', h)] [NavigableString ''site'']]]"

definition spec_row :: "string list \<Rightarrow> node" where
  "spec_row items =
     document
       [Tag ''span'' [(''class'', ''pl-results-td-account-Product_Specialization__c'')]
          (map list_item items)]"

definition batch_row :: "string list \<Rightarrow> node" where
  "batch_row items =
     document [Tag ''span'' [(''id'', ''j_id0:resultsPartnerType:0'')] (map list_item items)]"

definition address_row :: "node list \<Rightarrow> node" where
  "address_row cs =
     document
       [Tag ''a'' [(''class'', ''pl-results-partner-name'')] [NavigableString ''Acme''],
        Tag ''span'' [(''class'', ''pl-results-td-address-plocez__Mailing_Address__c'')] cs]"

definition address_cell :: node where
  "address_cell =
     Tag ''td'' []
       [Tag ''span'' [(''class'', ''pl-results-td-contact-plocez__Address__c'')]
          [NavigableString '' 123 Main St '', Tag ''br'' [] [],
           NavigableString ''Springfield'', Tag ''br'' [] [],
           NavigableString ''IL, USA'']]"

definition name_row :: node where
  "name_row = document [Tag ''a'' [(''class'', ''pl-results-partner-name'')] [NavigableString ''Acme'']]"

definition marker :: node where
  "marker = Tag ''td'' [(''class'', ''pl-results-td-row-no'')] []"

definition two_rows :: node where
  "two_rows =
     document
       [Tag ''table'' []
          [Tag ''tr'' [] [marker, Tag ''td'' [] [NavigableString ''first'']],
           Tag ''tr'' [] [Tag ''td'' [] [NavigableString ''second''], marker]]]"

definition loose_marker :: node where
  \<comment> \<open>a marker cell with no \<open>tr\<close> above it\<close>
  "loose_marker = document [Tag ''table'' [] [marker]]"

definition named :: "string \<Rightarrow> node" where
  "named s = document [Tag ''a'' [(''class'', ''pl-results-partner-name'')] [NavigableString s]]"

definition fragment_parser :: "node \<Rightarrow> string \<Rightarrow> py_exception + node" where
  \<comment> \<open>a parser for the fixtures: the text \<open><html>\<close> is the given document, any other
      text is a fragment holding a partner name, the text itself\<close>
  "fragment_parser doc html = (if html = ''<html>'' then Inr doc else Inr (named html))"

definition five_rows :: node where
  "five_rows = document [Tag ''table'' [] (replicate 5 (Tag ''tr'' [] [marker]))]"

section \<open>Properties of the text helpers\<close>

subsection \<open>Whitespace\<close>

lemma rstrip_Cons:
  "rev (dropWhile P (rev (c # cs))) = (if list_all P (c # cs) then [] else c # rev (dropWhile P (rev cs)))"
proof (cases "list_all P cs")
  case True
  then have "dropWhile P (rev cs) = []" by (simp add: list_all_iff)
  moreover have "dropWhile P (rev cs @ [c]) = dropWhile P [c]"
    by (rule dropWhile_append2) (use True in \<open>simp add: list_all_iff\<close>)
  ultimately show ?thesis using True by simp
next
  case False
  then obtain x where "x \<in> set (rev cs)" "\<not> P x" by (auto simp: list_all_iff)
  then have "dropWhile P (rev cs @ [c]) = dropWhile P (rev cs) @ [c]"
    by (rule dropWhile_append1)
  with False show ?thesis by simp
qed

lemma lstrip_rstrip:
  "dropWhile P (rev (dropWhile P (rev s))) = rev (dropWhile P (rev (dropWhile P s)))"
proof (induction s)
  case Nil
  then show ?case by simp
next
  case (Cons c cs)
  show ?case
  proof (cases "P c")
    case True
    show ?thesis
    proof (cases "list_all P cs")
      case all: True
      then have e: "dropWhile P cs = []" by (simp add: list_all_iff)
      show ?thesis using True all by (simp add: rstrip_Cons e del: rev.simps)
    next
      case False
      with True Cons show ?thesis by (simp add: rstrip_Cons del: rev.simps)
    qed
  next
    case False
    then show ?thesis by (simp add: rstrip_Cons del: rev.simps)
  qed
qed


lemma ws_split_all_space: "list_all is_space s \<Longrightarrow> ws_split s = []"
  by (induction s) auto

lemma ws_split_not_all_space: "\<not> list_all is_space s \<Longrightarrow> ws_split s \<noteq> []"
  by (induction s) auto

lemma collapse_word: "list_all (\<lambda>x. \<not> is_space x) w \<Longrightarrow> collapse_ws (w @ r) = w @ collapse_ws r"
  by (induction w) auto

lemma rstrip_word:
  "rev (dropWhile is_space (rev cs)) =
     (if list_all is_space (dropWhile (\<lambda>x. \<not> is_space x) cs) then takeWhile (\<lambda>x. \<not> is_space x) cs
      else takeWhile (\<lambda>x. \<not> is_space x) cs @ rev (dropWhile is_space (rev (dropWhile (\<lambda>x. \<not> is_space x) cs))))"
proof (induction cs)
  case Nil
  then show ?case by simp
next
  case (Cons c cs)
  show ?case
  proof (cases "is_space c")
    case True
    have "list_all is_space (c # cs) \<Longrightarrow> rev (dropWhile is_space (rev (c # cs))) = []"
      by (simp add: list_all_iff)
    with True show ?thesis by (auto simp del: rev.simps)
  next
    case False
    have "list_all is_space cs \<Longrightarrow> list_all is_space (dropWhile (\<lambda>x. \<not> is_space x) cs)"
      by (auto simp: list_all_iff dest: set_dropWhileD)
    then show ?thesis using False Cons
      by (simp add: rstrip_Cons del: rev.simps) 
  qed
qed


lemma collapse_strip_tokens: "collapse_ws (strip s) = join '' '' (ws_split s)"
proof (induction s rule: ws_split.induct)
  case 1
  then show ?case by (simp add: strip_def)
next
  case (2 c cs)
  show ?case
  proof (cases "is_space c")
    case True
    with 2 show ?thesis by (simp add: strip_def)
  next
    case False
    let ?w = "takeWhile (\<lambda>x. \<not> is_space x) cs"
    let ?r = "dropWhile (\<lambda>x. \<not> is_space x) cs"
    have IH: "collapse_ws (strip ?r) = join '' '' (ws_split ?r)" using 2(2) False by simp
    have w: "list_all (\<lambda>x. \<not> is_space x) (c # ?w)"
      using False by (auto simp: list_all_iff dest: set_takeWhileD)
    have sc: "strip (c # cs) = c # rev (dropWhile is_space (rev cs))"
      using False by (simp add: strip_def rstrip_Cons del: rev.simps)
    have split: "ws_split (c # cs) = (c # ?w) # ws_split ?r"
      using False by simp
    show ?thesis
    proof (cases "list_all is_space ?r")
      case True
      have "strip (c # cs) = c # ?w"
        unfolding sc using True rstrip_word[of cs] by simp
      moreover have "collapse_ws ((c # ?w) @ []) = (c # ?w) @ collapse_ws []"
        using w by (rule collapse_word)
      ultimately show ?thesis unfolding split using True by (simp add: ws_split_all_space)
    next
      case nall: False
      then obtain d ds where r: "?r = d # ds" by (cases ?r) auto
      have d: "is_space d" using r hd_dropWhile[of "\<lambda>x. \<not> is_space x" cs] by auto
      have s1: "strip (c # cs) = (c # ?w) @ rev (dropWhile is_space (rev ?r))"
        unfolding sc using nall rstrip_word[of cs] by simp
      have "rev (dropWhile is_space (rev ?r)) = d # rev (dropWhile is_space (rev ds))"
        using nall unfolding r by (simp only: rstrip_Cons if_False)
      then have "collapse_ws (rev (dropWhile is_space (rev ?r))) =
           CHR '' '' # collapse_ws (dropWhile is_space (rev (dropWhile is_space (rev ds))))"
        using d by simp
      also have "dropWhile is_space (rev (dropWhile is_space (rev ds))) = strip ds"
        by (simp add: lstrip_rstrip strip_def)
      also have "strip ds = strip ?r" using d by (simp add: r strip_def)
      finally have c2: "collapse_ws (rev (dropWhile is_space (rev ?r))) = CHR '' '' # join '' '' (ws_split ?r)"
        using IH by simp
      obtain t ts where ts: "ws_split ?r = t # ts"
        using ws_split_not_all_space[OF nall] by (cases "ws_split ?r") auto
      have "collapse_ws (strip (c # cs)) = (c # ?w) @ CHR '' '' # join '' '' (ws_split ?r)"
        unfolding s1 using collapse_word[OF w] c2 by simp
      then show ?thesis unfolding split by (simp add: ts)
    qed
  qed
qed

lemma strip_last: "strip s \<noteq> [] \<Longrightarrow> \<not> is_space (last (strip s))"
  unfolding strip_def using hd_dropWhile[of is_space "rev (dropWhile is_space s)"]
  by (simp add: last_rev)

text \<open>
  C3, the example. The specification gives \<open>Line1 Line2 !@\<close> as the normal form of the
  string \<open>Line1\n\n  Line2\t!@#$%\<close>. The character \<open>#\<close> is in the class the pattern
  keeps, so the function does not return that string.
\<close>

theorem clean_text_example_counterexample:
  "clean_text (''Line1'' @ [CHR 0x0A, CHR 0x0A] @ ''  Line2'' @ [CHR 0x09] @ ''!@#$%'')
     \<noteq> ''Line1 Line2 !@''"
  by code_simp

text \<open>
  C3, as amended. For every string, \<open>clean_text\<close> joins the maximal runs of characters that
  are not whitespace by single spaces (whitespace runs collapse, the ends are trimmed) and
  then keeps exactly the characters that are alphanumeric, the underscore, whitespace or
  one of \<open>. , ; ? ! @ - _ + ( ) / #\<close>. On the example of the specification the result is
  \<open>Line1 Line2 !@#\<close>.
\<close>

theorem clean_text_normalises:
  "clean_text s =
     filter (\<lambda>c. is_alnum c \<or> c = CHR ''_'' \<or> is_space c \<or> c \<in> set ''.,;?!@-_+()/#'')
       (join '' '' (ws_split s))
   \<and> clean_text (''Line1'' @ [CHR 0x0A, CHR 0x0A] @ ''  Line2'' @ [CHR 0x09] @ ''!@#$%'')
       = ''Line1 Line2 !@#''"
proof
  have k: "keep_char = (\<lambda>c. is_alnum c \<or> c = CHR ''_'' \<or> is_space c \<or> c \<in> set ''.,;?!@-_+()/#'')"
    by (rule ext) (simp add: keep_char_def is_word_def)
  show "clean_text s =
     filter (\<lambda>c. is_alnum c \<or> c = CHR ''_'' \<or> is_space c \<or> c \<in> set ''.,;?!@-_+()/#'')
       (join '' '' (ws_split s))"
  proof (cases "s = []")
    case True
    then show ?thesis by (simp add: clean_text_def)
  next
    case False
    then have "clean_text s = filter keep_char (join '' '' (ws_split s))"
      by (simp add: clean_text_def collapse_strip_tokens)
    then show ?thesis unfolding k .
  qed
next
  show "clean_text (''Line1'' @ [CHR 0x0A, CHR 0x0A] @ ''  Line2'' @ [CHR 0x09] @ ''!@#$%'')
       = ''Line1 Line2 !@#''"
    by code_simp
qed

subsection \<open>The matcher\<close>

lemma nullable_lang: "nullable r \<longleftrightarrow> [] \<in> lang r"
  by (induction r) (auto intro: star_nil)

lemma star_Cons_iff:
  "c # w \<in> star A \<longleftrightarrow> (\<exists>u v. w = u @ v \<and> c # u \<in> A \<and> v \<in> star A)"
proof
  assume "c # w \<in> star A"
  then show "\<exists>u v. w = u @ v \<and> c # u \<in> A \<and> v \<in> star A"
  proof (induction "c # w" arbitrary: w rule: star.induct)
    case (star_app u v)
    then show ?case by (cases u) auto
  qed
next
  assume "\<exists>u v. w = u @ v \<and> c # u \<in> A \<and> v \<in> star A"
  then obtain u v where "w = u @ v" "c # u \<in> A" "v \<in> star A" by blast
  then show "c # w \<in> star A" using star_app[of "c # u" A v] by simp
qed

lemma lang_deriv: "w \<in> lang (deriv c r) \<longleftrightarrow> c # w \<in> lang r"
proof (induction r arbitrary: w)
  case (Seq r s)
  then show ?case by (auto simp: nullable_lang Cons_eq_append_conv)
next
  case (Star r)
  then show ?case by (auto simp: star_Cons_iff)
qed auto

lemma full_match_lang: "full_match r s \<longleftrightarrow> s \<in> lang r"
  by (induction s arbitrary: r) (auto simp: nullable_lang lang_deriv)

lemma star_cls: "star {[c] | c. P c} = {w. list_all P w}"
proof (rule set_eqI, rule iffI)
  fix w assume "w \<in> star {[c] | c. P c}"
  then show "w \<in> {w. list_all P w}" by (induction rule: star.induct) auto
next
  fix w assume "w \<in> {w. list_all P w}"
  then have "list_all P w" by simp
  then show "w \<in> star {[c] | c. P c}"
  proof (induction w)
    case Nil
    then show ?case by (simp add: star_nil)
  next
    case (Cons a w)
    then have "[a] \<in> {[c] | c. P c}" "w \<in> star {[c] | c. P c}" by auto
    then have "[a] @ w \<in> star {[c] | c. P c}" by (rule star_app)
    then show ?case by simp
  qed
qed

lemma lang_Seq_Cls: "w \<in> lang (Seq (Cls P) r) \<longleftrightarrow> (\<exists>c v. w = c # v \<and> P c \<and> v \<in> lang r)"
proof
  assume "w \<in> lang (Seq (Cls P) r)"
  then obtain u v where "w = u @ v" "u \<in> lang (Cls P)" "v \<in> lang r" by auto
  then show "\<exists>c v. w = c # v \<and> P c \<and> v \<in> lang r" by auto
next
  assume "\<exists>c v. w = c # v \<and> P c \<and> v \<in> lang r"
  then obtain c v where "w = [c] @ v" "[c] \<in> lang (Cls P)" "v \<in> lang r" by auto
  then show "w \<in> lang (Seq (Cls P) r)" unfolding lang.simps(5) by blast
qed

lemma lang_one_or_more: "w \<in> lang (one_or_more (Cls P)) \<longleftrightarrow> w \<noteq> [] \<and> list_all P w"
  unfolding one_or_more_def lang_Seq_Cls by (cases w) (auto simp: star_cls)

lemma lang_two_or_more: "w \<in> lang (two_or_more (Cls P)) \<longleftrightarrow> 2 \<le> length w \<and> list_all P w"
proof (cases w)
  case Nil
  then show ?thesis by (simp add: two_or_more_def lang_Seq_Cls)
next
  case (Cons a v)
  then show ?thesis unfolding two_or_more_def lang_Seq_Cls by (cases v) (auto simp: star_cls)
qed

lemma lang_email_re: "e \<in> lang email_re \<longleftrightarrow> email_shape e"
proof -
  have "e \<in> lang email_re \<longleftrightarrow>
      (\<exists>l r1. e = l @ r1 \<and> l \<in> lang (one_or_more (Cls local_char)) \<and>
        (\<exists>a r2. r1 = a @ r2 \<and> a \<in> lang (lit CHR ''@'') \<and>
          (\<exists>d r3. r2 = d @ r3 \<and> d \<in> lang (one_or_more (Cls domain_char)) \<and>
            (\<exists>p t. r3 = p @ t \<and> p \<in> lang (lit CHR ''.'') \<and>
               t \<in> lang (two_or_more (Cls is_ascii_alpha))))))"
    unfolding email_re_def lang.simps(5) by blast
  also have "\<dots> \<longleftrightarrow> email_shape e"
    unfolding lang_one_or_more lang_two_or_more email_shape_def lit_def
    by simp blast
  finally show ?thesis .
qed

text \<open>
  C4. \<open>validate_email\<close> lower-cases and trims its argument and returns the result exactly
  when it has the shape local part, \<open>@\<close>, domain, dot, top-level label of two letters or
  more, over the character classes of the pattern; it returns the empty string otherwise.
  The two examples of the specification are evaluated.
\<close>

theorem validate_email_shape:
  "validate_email s = (if email_shape (strip (lower s)) then strip (lower s) else [])
   \<and> validate_email ''Jane.Doe@Example.COM'' = ''jane.doe@example.com''
   \<and> validate_email ''not-an-email'' = []"
proof (intro conjI)
  show "validate_email s = (if email_shape (strip (lower s)) then strip (lower s) else [])"
  proof (cases "s = []")
    case True
    then show ?thesis by (simp add: validate_email_def email_shape_def lower_def strip_def)
  next
    case False
    have nl: "is_space (CHR 0x0A)" by (simp add: is_space_def chr_in_def)
    have "strip (lower s) \<noteq> [] \<Longrightarrow> last (strip (lower s)) \<noteq> CHR 0x0A"
      using strip_last[of "lower s"] nl by auto
    then have "re_match_anchored email_re (strip (lower s)) \<longleftrightarrow> email_shape (strip (lower s))"
      unfolding re_match_anchored_def full_match_lang lang_email_re by auto
    with False show ?thesis by (simp add: validate_email_def Let_def)
  qed
next
  show "validate_email ''Jane.Doe@Example.COM'' = ''jane.doe@example.com''" by code_simp
next
  show "validate_email ''not-an-email'' = []" by code_simp
qed

section \<open>Properties of the row extractor\<close>

lemma keys_of_row: "map fst (parse_partner_row bs html) = required_fields"
  by (simp add: parse_partner_row_def parse_row_try_def required_fields_def comp_def
      split: sum.splits)

lemma row_of_soup:
  "bs html = Inr soup \<Longrightarrow>
   parse_partner_row bs html =
     [(''Number'', number_text soup),
      (''Siemens Batch'', siemens_batch soup),
      (''Name'', partner_name soup),
      (''Partner Batch'', partner_batch soup),
      (''Locations'', locations_text soup),
      (''Office address'', office_address soup),
      (''Contact Name'', contact_name soup),
      (''Contact Email'', contact_email soup),
      (''Contact Telephone'', contact_phone soup),
      (''Contact website'', contact_website soup),
      (''Proced Specialization'', proced_specialization soup)]"
  by (simp add: parse_partner_row_def parse_row_try_def)

text \<open>
  C1. \<open>parse_partner_row\<close> returns a record of eleven fields whatever the parser does with
  the fragment: the body of its \<open>try\<close> fails exactly when the parser rejects the markup,
  and then every field of the record returned is the empty string.
\<close>

theorem parse_partner_row_total:
  "length (parse_partner_row bs html) = 11
   \<and> (parse_row_try bs html = Inl e \<longleftrightarrow> bs html = Inl e)
   \<and> (parse_row_try bs html = Inl e \<longrightarrow>
        parse_partner_row bs html =
          [(''Number'', []), (''Siemens Batch'', []), (''Name'', []), (''Partner Batch'', []),
           (''Locations'', []), (''Office address'', []), (''Contact Name'', []),
           (''Contact Email'', []), (''Contact Telephone'', []), (''Contact website'', []),
           (''Proced Specialization'', [])])"
  by (simp add: parse_partner_row_def parse_row_try_def required_fields_def split: sum.splits)

theorem parse_partner_row_total_witness:
  "parse_row_try failing_parser ''<td'' = Inl ParserRejectedMarkup
   \<and> map snd (parse_partner_row failing_parser ''<td'') = replicate 11 []"
  using parse_partner_row_total [of failing_parser "''<td''" ParserRejectedMarkup]
  by (simp add: failing_parser_def parse_row_try_def eval_nat_numeral)

text \<open>
  C2. On every fragment, on the success path and on the failure path, the record has the
  eleven keys of \<open>required_fields\<close> in their fixed order, each once; they are the field
  names of the specification up to spaces and letter case. The values are strings by the
  type of the record.
\<close>

theorem record_shape:
  "map fst (parse_partner_row bs html) =
      [''Number'', ''Siemens Batch'', ''Name'', ''Partner Batch'', ''Locations'',
       ''Office address'', ''Contact Name'', ''Contact Email'', ''Contact Telephone'',
       ''Contact website'', ''Proced Specialization'']
   \<and> length (parse_partner_row bs html) = 11
   \<and> distinct (map fst (parse_partner_row bs html))
   \<and> map (\<lambda>k. lower (filter (\<lambda>c. c \<noteq> CHR '' '') k)) (map fst (parse_partner_row bs html))
       = map lower spec_field_names"
proof -
  have k: "map fst (parse_partner_row bs html) = required_fields" by (rule keys_of_row)
  have "length (map fst (parse_partner_row bs html)) = 11"
    unfolding k by (simp add: required_fields_def)
  then have l: "length (parse_partner_row bs html) = 11" by simp
  have d: "distinct required_fields" by (simp add: required_fields_def)
  have n: "map (\<lambda>k. lower (filter (\<lambda>c. c \<noteq> CHR '' '') k)) required_fields
             = map lower spec_field_names"
    by code_simp
  have r: "required_fields =
      [''Number'', ''Siemens Batch'', ''Name'', ''Partner Batch'', ''Locations'',
       ''Office address'', ''Contact Name'', ''Contact Email'', ''Contact Telephone'',
       ''Contact website'', ''Proced Specialization'']"
    by (simp add: required_fields_def)
  show ?thesis unfolding k using l d n r by blast
qed

lemma starts_with_prefix: "starts_with p s \<longleftrightarrow> prefix p s"
  by (induction p s rule: starts_with.induct) auto

lemma find_Some: "find p n = Some x \<Longrightarrow> p x \<and> x \<in> set (descendants n)"
proof -
  assume "find p n = Some x"
  then obtain xs where "filter p (descendants n) = x # xs"
    unfolding find_def find_all_def by (auto split: list.splits)
  then have "x \<in> set (filter p (descendants n))" by simp
  then show ?thesis by simp
qed

lemma web_row_https:
  "website_span (web_row ''https://x.com'') =
     Some (Tag ''span'' [(''class'', ''pl-results-td-contact-PLP_Website__c'')]
             [Tag ''a'' [(''href'', ''https://x.com'')] [NavigableString ''site'']])"
  "find with_href (Tag ''span'' [(''class'', ''pl-results-td-contact-PLP_Website__c'')]
             [Tag ''a'' [(''href'', ''https://x.com'')] [NavigableString ''site'']]) =
     Some (Tag ''a'' [(''href'', ''https://x.com'')] [NavigableString ''site''])"
  by code_simp+

lemma web_row_ftp:
  "website_span (web_row ''ftp://x.com'') =
     Some (Tag ''span'' [(''class'', ''pl-results-td-contact-PLP_Website__c'')]
             [Tag ''a'' [(''href'', ''ftp://x.com'')] [NavigableString ''site'']])"
  "find with_href (Tag ''span'' [(''class'', ''pl-results-td-contact-PLP_Website__c'')]
             [Tag ''a'' [(''href'', ''ftp://x.com'')] [NavigableString ''site'']]) =
     Some (Tag ''a'' [(''href'', ''ftp://x.com'')] [NavigableString ''site''])"
  by code_simp+

lemma address_row_full:
  "mailing_address (address_row [Tag ''span'' [(''class'', ''pl-results-value'')] [NavigableString ''1 Main  St''], NavigableString '' (HQ)'']) =
     Some (Tag ''span'' [(''class'', ''pl-results-td-address-plocez__Mailing_Address__c'')]
            [Tag ''span'' [(''class'', ''pl-results-value'')] [NavigableString ''1 Main  St''], NavigableString '' (HQ)''])
   \<and> find (by_class ''span'' ''pl-results-value'')
        (Tag ''span'' [(''class'', ''pl-results-td-address-plocez__Mailing_Address__c'')]
            [Tag ''span'' [(''class'', ''pl-results-value'')] [NavigableString ''1 Main  St''], NavigableString '' (HQ)'']) =
     Some (Tag ''span'' [(''class'', ''pl-results-value'')] [NavigableString ''1 Main  St''])"
  by code_simp

lemma address_row_bare:
  "mailing_address (address_row [NavigableString ''1 Main St'']) =
     Some (Tag ''span'' [(''class'', ''pl-results-td-address-plocez__Mailing_Address__c'')]
            [NavigableString ''1 Main St''])
   \<and> find (by_class ''span'' ''pl-results-value'')
        (Tag ''span'' [(''class'', ''pl-results-td-address-plocez__Mailing_Address__c'')]
            [NavigableString ''1 Main St'']) = None"
  by code_simp

lemma name_row_no_address: "mailing_address name_row = None"
  by code_simp

lemma name_rows:
  "partner_name name_row = ''Acme''"
  "partner_name (address_row [NavigableString ''1 Main St'']) = ''Acme''"
  by code_simp+

lemma full_text: "clean_text (get_text (Tag ''span'' [(''class'', ''pl-results-td-address-plocez__Mailing_Address__c'')]
            [Tag ''span'' [(''class'', ''pl-results-value'')] [NavigableString ''1 Main  St''], NavigableString '' (HQ)''])) = ''1 Main St (HQ)''"
  by code_simp

text \<open>
  C5. When the fragment parses, its website element is found and that element has a link
  with a target (the first \<open>a\<close> below it that has an \<open>href\<close>), the field
  \<open>Contact website\<close> is the target itself when it begins with \<open>http://\<close> or
  \<open>https://\<close>, and the empty string otherwise.
\<close>

theorem website_scheme_check:
  assumes "bs html = Inr soup" and "website_span soup = Some ws" and "find with_href ws = Some l"
  shows "\<exists>h. get_attr ''href'' l = Some h \<and>
           map_of (parse_partner_row bs html) ''Contact website'' =
             Some (if prefix ''http://'' h \<or> prefix ''https://'' h then h else [])"
proof -
  from assms(3) have "with_href l" by (auto dest: find_Some)
  then obtain h where h: "get_attr ''href'' l = Some h" by (auto simp: with_href_def)
  have "contact_website soup = (if prefix ''http://'' h \<or> prefix ''https://'' h then h else [])"
    using assms(2,3) h
    by (simp add: contact_website_def web_link_def link_href_def starts_with_prefix)
  then show ?thesis using h by (simp add: row_of_soup[of bs html soup, OF assms(1)])
qed

theorem website_scheme_check_witness:
  "map_of (parse_partner_row (parsed_as (web_row ''https://x.com'')) ''<tr>'') ''Contact website''
     = Some ''https://x.com''
   \<and> map_of (parse_partner_row (parsed_as (web_row ''ftp://x.com'')) ''<tr>'') ''Contact website''
     = Some []"
proof
  show "map_of (parse_partner_row (parsed_as (web_row ''https://x.com'')) ''<tr>'') ''Contact website''
     = Some ''https://x.com''"
    using website_scheme_check [of "parsed_as (web_row ''https://x.com'')" "''<tr>''", OF parsed_as_def web_row_https]
    by auto
next
  show "map_of (parse_partner_row (parsed_as (web_row ''ftp://x.com'')) ''<tr>'') ''Contact website''
     = Some []"
    using website_scheme_check [of "parsed_as (web_row ''ftp://x.com'')" "''<tr>''", OF parsed_as_def web_row_ftp]
    by auto
qed

lemma bare_address_values:
  "office_address (address_row [NavigableString ''1 Main St'']) = []"
  "clean_text (get_text (Tag ''span'' [(''class'', ''pl-results-td-address-plocez__Mailing_Address__c'')]
            [NavigableString ''1 Main St''])) = ''1 Main St''"
  by code_simp+

text \<open>
  C9, the rule as worded. With the mailing-address element present the field would be its
  normalised text. The source assigns the field only under the guard \<open>if address_detail\<close>,
  that is when a value element (a \<open>span\<close> of class \<open>pl-results-value\<close>) is found below the
  mailing-address element: on an element that holds the text \<open>1 Main St\<close> and no value
  element the field is empty.
\<close>

theorem office_address_bare_element_counterexample:
  "mailing_address (address_row [NavigableString ''1 Main St'']) =
     Some (Tag ''span'' [(''class'', ''pl-results-td-address-plocez__Mailing_Address__c'')]
            [NavigableString ''1 Main St''])
   \<and> clean_text (get_text (Tag ''span'' [(''class'', ''pl-results-td-address-plocez__Mailing_Address__c'')]
            [NavigableString ''1 Main St''])) = ''1 Main St''
   \<and> map_of (parse_partner_row (parsed_as (address_row [NavigableString ''1 Main St''])) ''<tr>'')
         ''Office address'' = Some []"
  using address_row_bare
    row_of_soup [of "parsed_as (address_row [NavigableString ''1 Main St''])" "''<tr>''"
                    "address_row [NavigableString ''1 Main St'']"]
  by (simp add: parsed_as_def bare_address_values)

text \<open>
  C9, as amended. When the fragment parses and the mailing-address element is found
  together with a value element below it, the field \<open>Office address\<close> is the normalised
  text of the whole mailing-address element. When the element, or the value element below
  it, is missing, the field is the empty string and the other ten fields are what their
  own rules give.
\<close>

theorem office_address_full_text:
  assumes "bs html = Inr soup"
  shows "(mailing_address soup = Some a \<and> find (by_class ''span'' ''pl-results-value'') a \<noteq> None
            \<longrightarrow> map_of (parse_partner_row bs html) ''Office address'' = Some (clean_text (get_text a)))
       \<and> (mailing_address soup = None
            \<or> (\<exists>a'. mailing_address soup = Some a' \<and> find (by_class ''span'' ''pl-results-value'') a' = None)
            \<longrightarrow> parse_partner_row bs html =
                  [(''Number'', number_text soup),
                   (''Siemens Batch'', siemens_batch soup),
                   (''Name'', partner_name soup),
                   (''Partner Batch'', partner_batch soup),
                   (''Locations'', locations_text soup),
                   (''Office address'', []),
                   (''Contact Name'', contact_name soup),
                   (''Contact Email'', contact_email soup),
                   (''Contact Telephone'', contact_phone soup),
                   (''Contact website'', contact_website soup),
                   (''Proced Specialization'', proced_specialization soup)])"
proof (intro conjI impI)
  assume "mailing_address soup = Some a \<and> find (by_class ''span'' ''pl-results-value'') a \<noteq> None"
  then have "office_address soup = clean_text (get_text a)" by (auto simp: office_address_def)
  then show "map_of (parse_partner_row bs html) ''Office address'' = Some (clean_text (get_text a))"
    by (simp add: row_of_soup[of bs html soup, OF assms])
next
  assume "mailing_address soup = None
            \<or> (\<exists>a'. mailing_address soup = Some a' \<and> find (by_class ''span'' ''pl-results-value'') a' = None)"
  then have "office_address soup = []" by (auto simp: office_address_def)
  then show "parse_partner_row bs html =
                  [(''Number'', number_text soup),
                   (''Siemens Batch'', siemens_batch soup),
                   (''Name'', partner_name soup),
                   (''Partner Batch'', partner_batch soup),
                   (''Locations'', locations_text soup),
                   (''Office address'', []),
                   (''Contact Name'', contact_name soup),
                   (''Contact Email'', contact_email soup),
                   (''Contact Telephone'', contact_phone soup),
                   (''Contact website'', contact_website soup),
                   (''Proced Specialization'', proced_specialization soup)]"
    by (simp add: row_of_soup[of bs html soup, OF assms])
qed

theorem office_address_full_text_witness:
  "map_of (parse_partner_row
      (parsed_as (address_row [Tag ''span'' [(''class'', ''pl-results-value'')] [NavigableString ''1 Main  St''],
                               NavigableString '' (HQ)'']))
      ''<tr>'') ''Office address'' = Some ''1 Main St (HQ)''
   \<and> map (\<lambda>k. map_of (parse_partner_row (parsed_as name_row) ''<tr>'') k) [''Name'', ''Office address'']
       = [Some ''Acme'', Some []]
   \<and> map (\<lambda>k. map_of (parse_partner_row (parsed_as (address_row [NavigableString ''1 Main St''])) ''<tr>'') k)
         [''Name'', ''Office address'']
       = [Some ''Acme'', Some []]"
proof (intro conjI)
  show "map_of (parse_partner_row
      (parsed_as (address_row [Tag ''span'' [(''class'', ''pl-results-value'')] [NavigableString ''1 Main  St''],
                               NavigableString '' (HQ)'']))
      ''<tr>'') ''Office address'' = Some ''1 Main St (HQ)''"
    using office_address_full_text [of "parsed_as (address_row [Tag ''span'' [(''class'', ''pl-results-value'')] [NavigableString ''1 Main  St''],
                               NavigableString '' (HQ)''])" "''<tr>''" _
          "Tag ''span'' [(''class'', ''pl-results-td-address-plocez__Mailing_Address__c'')]
            [Tag ''span'' [(''class'', ''pl-results-value'')] [NavigableString ''1 Main  St''], NavigableString '' (HQ)'']", OF parsed_as_def]
       address_row_full
    by (simp add: full_text)
next
  show "map (\<lambda>k. map_of (parse_partner_row (parsed_as name_row) ''<tr>'') k) [''Name'', ''Office address'']
       = [Some ''Acme'', Some []]"
    using office_address_full_text [of "parsed_as name_row" "''<tr>''", OF parsed_as_def] name_row_no_address
    by (simp add: name_rows)
next
  show "map (\<lambda>k. map_of (parse_partner_row (parsed_as (address_row [NavigableString ''1 Main St''])) ''<tr>'') k)
         [''Name'', ''Office address'']
       = [Some ''Acme'', Some []]"
    using office_address_full_text [of "parsed_as (address_row [NavigableString ''1 Main St''])" "''<tr>''", OF parsed_as_def]
       address_row_bare
    by (simp add: name_rows)
qed

subsection \<open>Specializations and partner batch\<close>

lemma add_specs_set:
  "add_specs lis S = S \<union> set (filter (\<lambda>s. s \<noteq> []) (map (\<lambda>li. clean_text (get_text li)) lis))"
  by (induction lis arbitrary: S) (auto simp: Let_def)

lemma specializations_set:
  "specializations soup =
     set (filter (\<lambda>s. s \<noteq> []) (map (\<lambda>li. clean_text (get_text li)) (spec_items soup)))"
  by (simp add: specializations_def add_specs_set)

lemma spec_row_items:
  "spec_items (spec_row [''ct'', ''MRI'', ''CT'', ''MRI'']) =
     [list_item ''ct'', list_item ''MRI'', list_item ''CT'', list_item ''MRI'']"
  "spec_items (spec_row [''CT'', ''MRI'', ''ct'']) = [list_item ''CT'', list_item ''MRI'', list_item ''ct'']"
  "spec_items (spec_row [''$$'', ''%'']) = [list_item ''$$'', list_item ''%'']"
  by code_simp+

lemma item_texts:
  "clean_text (get_text (list_item ''$$'')) = []"
  "clean_text (get_text (list_item ''%'')) = []"
  "clean_text (get_text (list_item ''CT'')) = ''CT''"
  "clean_text (get_text (list_item ''ct'')) = ''ct''"
  "clean_text (get_text (list_item ''MRI'')) = ''MRI''"
  "clean_text (get_text (list_item ''Gold'')) = ''Gold''"
  by code_simp+

lemma batch_row_span:
  "find partner_type_id (batch_row [''Gold'', ''$$'']) =
     Some (Tag ''span'' [(''id'', ''j_id0:resultsPartnerType:0'')] [list_item ''Gold'', list_item ''$$''])"
  "batch_items (Tag ''span'' [(''id'', ''j_id0:resultsPartnerType:0'')] [list_item ''Gold'', list_item ''$$''])
     = [list_item ''Gold'', list_item ''$$'']"
  by code_simp+

text \<open>
  C6, the rule as worded. Read with every list item taking part (\<open>every_item_cleaned\<close>), the
  rule gives an entry to an item whose normalised text is empty. The source guards the
  insertion with \<open>if spec\<close>, so on a container holding an item of one space and the
  item \<open>CT\<close> the field is \<open>CT\<close> and not \<open>, CT\<close>.
\<close>

theorem specialization_empty_item_counterexample:
  "proced_specialization (spec_row ['' '', ''CT'']) = ''CT''
   \<and> every_item_cleaned (spec_row ['' '', ''CT'']) = '', CT''
   \<and> proced_specialization (spec_row ['' '', ''CT''])
       \<noteq> every_item_cleaned (spec_row ['' '', ''CT''])"
  by code_simp

text \<open>
  C6, as amended. \<open>Proced Specialization\<close> is computed from the list items of the
  specialization container by normalising their texts, dropping the texts that are empty
  after normalisation, removing duplicates by string equality, sorting the distinct values
  lexicographically and joining them with a comma and a space. Two containers whose items
  have the same set of normalised texts give the same field, whatever the order and the
  number of repetitions.
\<close>

theorem proced_specialization_dedup_sorted:
  "proced_specialization soup =
     join '', '' (sort (remdups (filter (\<lambda>s. s \<noteq> [])
        (map (\<lambda>li. clean_text (get_text li)) (spec_items soup)))))
   \<and> (set (map (\<lambda>li. clean_text (get_text li)) (spec_items soup)) =
        set (map (\<lambda>li. clean_text (get_text li)) (spec_items soup'))
       \<longrightarrow> proced_specialization soup = proced_specialization soup')"
proof (intro conjI impI)
  show "proced_specialization soup =
     join '', '' (sort (remdups (filter (\<lambda>s. s \<noteq> [])
        (map (\<lambda>li. clean_text (get_text li)) (spec_items soup)))))"
    unfolding proced_specialization_def specializations_set sorted_list_of_set_sort_remdups ..
next
  assume "set (map (\<lambda>li. clean_text (get_text li)) (spec_items soup)) =
        set (map (\<lambda>li. clean_text (get_text li)) (spec_items soup'))"
  then have "specializations soup = specializations soup'"
    unfolding specializations_set set_filter by simp
  then show "proced_specialization soup = proced_specialization soup'"
    by (simp add: proced_specialization_def)
qed

theorem proced_specialization_dedup_sorted_witness:
  "proced_specialization (spec_row [''ct'', ''MRI'', ''CT'', ''MRI'']) = ''CT, MRI, ct''
   \<and> proced_specialization (spec_row [''CT'', ''MRI'', ''ct'']) = ''CT, MRI, ct''"
proof -
  have a: "proced_specialization (spec_row [''ct'', ''MRI'', ''CT'', ''MRI'']) = ''CT, MRI, ct''"
    using proced_specialization_dedup_sorted [of "spec_row [''ct'', ''MRI'', ''CT'', ''MRI'']" "spec_row [''CT'', ''MRI'', ''ct'']"]
    by (simp add: spec_row_items item_texts)
  have "proced_specialization (spec_row [''ct'', ''MRI'', ''CT'', ''MRI'']) =
        proced_specialization (spec_row [''CT'', ''MRI'', ''ct''])"
    using proced_specialization_dedup_sorted [of "spec_row [''ct'', ''MRI'', ''CT'', ''MRI'']" "spec_row [''CT'', ''MRI'', ''ct'']"]
    by (auto simp add: spec_row_items item_texts)
  with a show ?thesis by simp
qed

text \<open>
  C10. No entry of \<open>Proced Specialization\<close> is empty: the entries are the normalised item
  texts other than the empty string, so a container whose items all normalise to the
  empty string gives the empty field. \<open>Partner Batch\<close> joins the normalised text of every
  list item of its container, the empty ones included.
\<close>

theorem no_empty_specialization:
  "[] \<notin> set (sorted_list_of_set (specializations soup))
   \<and> set (sorted_list_of_set (specializations soup)) =
       set (map (\<lambda>li. clean_text (get_text li)) (spec_items soup)) - {[]}
   \<and> (list_all (\<lambda>li. clean_text (get_text li) = []) (spec_items soup)
        \<longrightarrow> proced_specialization soup = [])
   \<and> (find partner_type_id soup = Some sp
        \<longrightarrow> partner_batch soup =
              join '', '' (map (\<lambda>item. clean_text (get_text item)) (batch_items sp)))"
proof (intro conjI impI)
  have fin: "finite (specializations soup)" by (simp add: specializations_set)
  show "[] \<notin> set (sorted_list_of_set (specializations soup))"
    using fin by (auto simp: specializations_set)
  show "set (sorted_list_of_set (specializations soup)) =
       set (map (\<lambda>li. clean_text (get_text li)) (spec_items soup)) - {[]}"
    using fin by (auto simp: specializations_set)
next
  assume "list_all (\<lambda>li. clean_text (get_text li) = []) (spec_items soup)"
  then have "filter (\<lambda>s. s \<noteq> []) (map (\<lambda>li. clean_text (get_text li)) (spec_items soup)) = []"
    by (auto simp: list_all_iff filter_empty_conv)
  then have "specializations soup = {}" by (simp only: specializations_set set_simps)
  then show "proced_specialization soup = []" by (simp add: proced_specialization_def)
next
  assume "find partner_type_id soup = Some sp"
  then show "partner_batch soup =
              join '', '' (map (\<lambda>item. clean_text (get_text item)) (batch_items sp))"
    by (simp add: partner_batch_def)
qed

theorem no_empty_specialization_witness:
  "proced_specialization (spec_row [''$$'', ''%'']) = []
   \<and> partner_batch (batch_row [''Gold'', ''$$'']) = ''Gold, ''"
proof
  show "proced_specialization (spec_row [''$$'', ''%'']) = []"
    using no_empty_specialization [of "spec_row [''$$'', ''%'']"]
    by (simp add: spec_row_items item_texts)
next
  show "partner_batch (batch_row [''Gold'', ''$$'']) = ''Gold, ''"
    using no_empty_specialization [of "batch_row [''Gold'', ''$$'']"
        "Tag ''span'' [(''id'', ''j_id0:resultsPartnerType:0'')] [list_item ''Gold'', list_item ''$$'']"]
    by (simp add: batch_row_span item_texts)
qed

section \<open>Properties of the address split\<close>

lemma split_on_length: "length (split_on c s) = Suc (count_list s c)"
  by (induction s) (auto split: list.splits)

lemma split_on_none: "count_list s c = 0 \<Longrightarrow> split_on c s = [s]"
  by (induction s) (auto split: list.splits if_splits)

lemma split_on_one:
  "count_list s c = 1 \<Longrightarrow>
   split_on c s = [takeWhile (\<lambda>x. x \<noteq> c) s, tl (dropWhile (\<lambda>x. x \<noteq> c) s)]"
  by (induction s) (auto simp: split_on_none split: list.splits if_splits)

lemma split_on_two_iff: "length (split_on c s) = 2 \<longleftrightarrow> count_list s c = 1"
  by (simp add: split_on_length)

lemma strip_idem: "strip (strip s) = strip s"
proof -
  have "dropWhile is_space (rev (dropWhile is_space (rev (dropWhile is_space s))))
        = rev (dropWhile is_space (rev (dropWhile is_space s)))"
    using lstrip_rstrip[of is_space "dropWhile is_space s"] by (simp add: dropWhile_idem)
  then show ?thesis by (simp add: strip_def dropWhile_idem)
qed

lemma address_parts_stripped: "address_parts sp = stripped_strings sp"
proof -
  have "\<And>xs. map strip (filter (\<lambda>p. strip p \<noteq> []) (filter (\<lambda>s. s \<noteq> []) (map strip xs)))
           = filter (\<lambda>s. s \<noteq> []) (map strip xs)"
    by (induct_tac xs) (auto simp: strip_idem)
  then show ?thesis by (simp add: address_parts_def stripped_strings_def)
qed

lemma address_cell_span:
  "find (by_class ''span'' ''pl-results-td-contact-plocez__Address__c'')
     (Tag ''td'' []
       [Tag ''span'' [(''class'', ''pl-results-td-contact-plocez__Address__c'')]
          [NavigableString '' 123 Main St '', Tag ''br'' [] [],
           NavigableString ''Springfield'', Tag ''br'' [] [],
           NavigableString ''IL, USA'']]) =
   Some (Tag ''span'' [(''class'', ''pl-results-td-contact-plocez__Address__c'')]
          [NavigableString '' 123 Main St '', Tag ''br'' [] [],
           NavigableString ''Springfield'', Tag ''br'' [] [],
           NavigableString ''IL, USA''])"
  by code_simp

lemma address_cell_parts:
  "stripped_strings (Tag ''span'' [(''class'', ''pl-results-td-contact-plocez__Address__c'')]
          [NavigableString '' 123 Main St '', Tag ''br'' [] [],
           NavigableString ''Springfield'', Tag ''br'' [] [],
           NavigableString ''IL, USA'']) = [''123 Main St'', ''Springfield'', ''IL, USA'']"
  by code_simp

lemma address_text_node: "address_try (NavigableString ''x'') = Inl TypeError"
  by (simp add: address_try_def)

lemma address_examples:
  "count_list ''IL,'' CHR '','' = 1"
  "strip (takeWhile (\<lambda>c. c \<noteq> CHR '','') ''IL,'') = ''IL''"
  "strip (tl (dropWhile (\<lambda>c. c \<noteq> CHR '','') ''IL,'')) = []"
  "count_list ''A, B, C'' CHR '','' = 2"
  "strip ''IL'' = ''IL''"
  "strip [] = []"
  "clean_text [] = []"
  "clean_text ''1 Main St'' = ''1 Main St''"
  "clean_text ''Springfield'' = ''Springfield''"
  "clean_text ''IL'' = ''IL''"
  "clean_text ''USA'' = ''USA''"
  "clean_text ''A, B, C'' = ''A, B, C''"
  by code_simp+

text \<open>
  C7. The street is the first part and the city the second, when present. A third part
  with exactly one comma is split at it into region and country, both trimmed; any other
  third part is the region as a whole. A fourth part is the country when the country is
  still empty at that point. Every component goes through \<open>clean_text\<close>. With fewer than
  three parts region and country are empty. When the body of the \<open>try\<close> raises, the four
  components are empty; on a cell whose Address element is found, the parts are the
  stripped, non-empty strings of that element. The two examples of the specification
  are evaluated.
\<close>

theorem address_split:
  "(case address_from_parts parts of
      (street, city, region, country) \<Rightarrow>
        street = clean_text (if 1 \<le> length parts then parts ! 0 else [])
      \<and> city = clean_text (if 2 \<le> length parts then parts ! 1 else [])
      \<and> (3 \<le> length parts \<and> count_list (parts ! 2) CHR '','' = 1 \<longrightarrow>
            region = clean_text (strip (takeWhile (\<lambda>c. c \<noteq> CHR '','') (parts ! 2)))
          \<and> country =
              (let c = strip (tl (dropWhile (\<lambda>c. c \<noteq> CHR '','') (parts ! 2)))
               in clean_text (if c = [] \<and> 4 \<le> length parts then parts ! 3 else c)))
      \<and> (3 \<le> length parts \<and> count_list (parts ! 2) CHR '','' \<noteq> 1 \<longrightarrow>
            region = clean_text (parts ! 2)
          \<and> country = clean_text (if 4 \<le> length parts then parts ! 3 else []))
      \<and> (length parts < 3 \<longrightarrow> region = [] \<and> country = []))
   \<and> (address_try td = Inl e \<longrightarrow> extract_address_components (Some td) = ([], [], [], []))
   \<and> (find (by_class ''span'' ''pl-results-td-contact-plocez__Address__c'') (Tag n a cs) = Some sp \<longrightarrow>
        extract_address_components (Some (Tag n a cs)) = address_from_parts (stripped_strings sp))
   \<and> address_from_parts [''123 Main St'', ''Springfield'', ''IL, USA'']
        = (''123 Main St'', ''Springfield'', ''IL'', ''USA'')
   \<and> address_from_parts [''123 Main St'', ''Springfield'', ''Illinois'']
        = (''123 Main St'', ''Springfield'', ''Illinois'', [])"
proof (intro conjI)
  show "case address_from_parts parts of
      (street, city, region, country) \<Rightarrow>
        street = clean_text (if 1 \<le> length parts then parts ! 0 else [])
      \<and> city = clean_text (if 2 \<le> length parts then parts ! 1 else [])
      \<and> (3 \<le> length parts \<and> count_list (parts ! 2) CHR '','' = 1 \<longrightarrow>
            region = clean_text (strip (takeWhile (\<lambda>c. c \<noteq> CHR '','') (parts ! 2)))
          \<and> country =
              (let c = strip (tl (dropWhile (\<lambda>c. c \<noteq> CHR '','') (parts ! 2)))
               in clean_text (if c = [] \<and> 4 \<le> length parts then parts ! 3 else c)))
      \<and> (3 \<le> length parts \<and> count_list (parts ! 2) CHR '','' \<noteq> 1 \<longrightarrow>
            region = clean_text (parts ! 2)
          \<and> country = clean_text (if 4 \<le> length parts then parts ! 3 else []))
      \<and> (length parts < 3 \<longrightarrow> region = [] \<and> country = [])"
  proof (cases "3 \<le> length parts")
    case False
    then show ?thesis by (simp add: address_from_parts_def Let_def clean_text_def)
  next
    case True
    show ?thesis
    proof (cases "count_list (parts ! 2) CHR '','' = 1")
      case one: True
      then show ?thesis using True
        by (simp add: address_from_parts_def Let_def split_on_two_iff split_on_one)
    next
      case False
      then show ?thesis using True
        by (simp add: address_from_parts_def Let_def split_on_two_iff)
    qed
  qed
next
  show "address_try td = Inl e \<longrightarrow> extract_address_components (Some td) = ([], [], [], [])"
    by (simp add: extract_address_components_def)
next
  show "find (by_class ''span'' ''pl-results-td-contact-plocez__Address__c'') (Tag n a cs) = Some sp \<longrightarrow>
        extract_address_components (Some (Tag n a cs)) = address_from_parts (stripped_strings sp)"
    by (simp add: extract_address_components_def address_try_def address_parts_stripped)
next
  show "address_from_parts [''123 Main St'', ''Springfield'', ''IL, USA'']
        = (''123 Main St'', ''Springfield'', ''IL'', ''USA'')"
    by code_simp
next
  show "address_from_parts [''123 Main St'', ''Springfield'', ''Illinois'']
        = (''123 Main St'', ''Springfield'', ''Illinois'', [])"
    by code_simp
qed

theorem address_split_witness:
  "address_from_parts [''1 Main St'', ''Springfield'', ''IL,'', ''USA'']
     = (''1 Main St'', ''Springfield'', ''IL'', ''USA'')
   \<and> address_from_parts [''1 Main St'', ''Springfield'', ''A, B, C'', ''USA'']
     = (''1 Main St'', ''Springfield'', ''A, B, C'', ''USA'')
   \<and> address_from_parts [''1 Main St''] = (''1 Main St'', [], [], [])
   \<and> extract_address_components (Some (NavigableString ''x'')) = ([], [], [], [])
   \<and> extract_address_components (Some address_cell)
     = (''123 Main St'', ''Springfield'', ''IL'', ''USA'')"
proof (intro conjI)
  show "address_from_parts [''1 Main St'', ''Springfield'', ''IL,'', ''USA'']
     = (''1 Main St'', ''Springfield'', ''IL'', ''USA'')"
    using address_split [of "[''1 Main St'', ''Springfield'', ''IL,'', ''USA'']"]
    by (cases "address_from_parts [''1 Main St'', ''Springfield'', ''IL,'', ''USA'']")
       (simp add: address_examples Let_def)
next
  show "address_from_parts [''1 Main St'', ''Springfield'', ''A, B, C'', ''USA'']
     = (''1 Main St'', ''Springfield'', ''A, B, C'', ''USA'')"
    using address_split [of "[''1 Main St'', ''Springfield'', ''A, B, C'', ''USA'']"]
    by (cases "address_from_parts [''1 Main St'', ''Springfield'', ''A, B, C'', ''USA'']")
       (simp add: address_examples Let_def)
next
  show "address_from_parts [''1 Main St''] = (''1 Main St'', [], [], [])"
    using address_split [of "[''1 Main St'']"]
    by (cases "address_from_parts [''1 Main St'']") (simp add: address_examples Let_def)
next
  show "extract_address_components (Some (NavigableString ''x'')) = ([], [], [], [])"
    using address_split [of _ "NavigableString ''x''" TypeError] address_text_node by simp
next
  show "extract_address_components (Some address_cell)
     = (''123 Main St'', ''Springfield'', ''IL'', ''USA'')"
    using address_split [of _ _ _ "''td''" "[]"
        "[Tag ''span'' [(''class'', ''pl-results-td-contact-plocez__Address__c'')]
          [NavigableString '' 123 Main St '', Tag ''br'' [] [],
           NavigableString ''Springfield'', Tag ''br'' [] [],
           NavigableString ''IL, USA'']]"
        "Tag ''span'' [(''class'', ''pl-results-td-contact-plocez__Address__c'')]
          [NavigableString '' 123 Main St '', Tag ''br'' [] [],
           NavigableString ''Springfield'', Tag ''br'' [] [],
           NavigableString ''IL, USA'']"]
      address_cell_span
    by (simp add: address_cell_def address_cell_parts)
qed

section \<open>Properties of the document segmenter\<close>

lemma rows_loop_map:
  "rows_loop bs decode ms results =
     results @ map (\<lambda>m. parse_partner_row bs (row_html decode m)) ms"
  by (induction ms arbitrary: results) auto

lemma located_fst: "map fst (located anc n) = descendants n"
proof (induction n arbitrary: anc)
  case (Tag name attrs cs)
  have "map fst (located anc (Tag name attrs cs)) =
        concat (map (\<lambda>c. c # map fst (located (Tag name attrs cs # anc) c)) cs)"
    by (simp add: map_concat comp_def)
  also have "\<dots> = concat (map (\<lambda>c. c # descendants c) cs)"
    using Tag by (auto intro!: arg_cong[where f=concat] map_cong)
  finally show ?case by simp
qed auto

lemma partner_rows_markers: "map fst (partner_rows soup) = find_all row_marker soup"
proof -
  have "map fst (filter (\<lambda>e. row_marker (fst e)) (located [] soup)) =
        filter row_marker (map fst (located [] soup))"
    by (simp add: filter_map comp_def)
  then show ?thesis by (simp add: partner_rows_def find_all_def located_fst)
qed

lemma marker_counts:
  "length (filter row_marker (descendants five_rows)) = 5"
  "filter row_marker (descendants name_row) = []"
  "filter row_marker (descendants (document [])) = []"
  by code_simp+

lemma is_path_snoc:
  "up \<noteq> [] \<Longrightarrow> is_path m up \<Longrightarrow> last up \<in> set (contents t) \<Longrightarrow> is_path m (up @ [t])"
proof (induction up arbitrary: m)
  case Nil
  then show ?case by simp
next
  case (Cons a up)
  then show ?case by (cases "up = []") auto
qed

lemma located_path:
  "(m, anc) \<in> set (located anc0 n) \<Longrightarrow>
     \<exists>up. anc = up @ anc0 \<and> up \<noteq> [] \<and> last up = n \<and> is_path m up"
proof (induction n arbitrary: anc0 m anc)
  case (Tag name attrs cs)
  let ?t = "Tag name attrs cs"
  from Tag.prems obtain c where c: "c \<in> set cs"
    and d: "(m, anc) = (c, ?t # anc0) \<or> (m, anc) \<in> set (located (?t # anc0) c)"
    by auto
  from d show ?case
  proof
    assume "(m, anc) = (c, ?t # anc0)"
    then have "anc = [?t] @ anc0" "is_path m [?t]" using c by simp_all
    then show ?thesis by (intro exI[of _ "[?t]"]) simp
  next
    assume "(m, anc) \<in> set (located (?t # anc0) c)"
    from Tag.IH[OF c this] obtain up where up: "anc = up @ ?t # anc0" "up \<noteq> []" "last up = c"
      "is_path m up" by blast
    have "is_path m (up @ [?t])" using up c by (intro is_path_snoc) simp_all
    then show ?thesis using up by (intro exI[of _ "up @ [?t]"]) simp
  qed
qed auto

lemma located_chain: "e \<in> set (located [] soup) \<Longrightarrow> ancestor_chain soup (fst e) (snd e)"
  using located_path[of "fst e" "snd e" "[]" soup] by (auto simp: ancestor_chain_def)

lemma partner_rows_chain:
  "e \<in> set (partner_rows soup) \<Longrightarrow> ancestor_chain soup (fst e) (snd e)"
  by (simp add: partner_rows_def located_chain)

lemma rows_of_markers:
  "rows_loop bs decode ms [] =
     map (\<lambda>e. parse_partner_row bs
            (case List.find (is_tag ''tr'') (snd e) of None \<Rightarrow> ''None'' | Some tr \<Rightarrow> decode tr)) ms"
  by (simp add: rows_loop_map row_html_def find_parent_def py_str_def)

lemma fixture_fragments:
  "map (\<lambda>e. case List.find (is_tag ''tr'') (snd e) of None \<Rightarrow> ''None'' | Some tr \<Rightarrow> get_text tr)
     (partner_rows two_rows) = [''first'', ''second'']"
  "map (\<lambda>e. case List.find (is_tag ''tr'') (snd e) of None \<Rightarrow> ''None'' | Some tr \<Rightarrow> get_text tr)
     (partner_rows loose_marker) = [''None'']"
  by code_simp+

lemma fixture_names:
  "partner_name (named ''first'') = ''first''"
  "partner_name (named ''second'') = ''second''"
  "partner_name (named ''None'') = ''None''"
  by code_simp+

lemma fragment_parser_name:
  "s \<noteq> ''<html>'' \<Longrightarrow>
   map_of (parse_partner_row (fragment_parser doc) s) ''Name'' = Some (partner_name (named s))"
  using row_of_soup [of "fragment_parser doc" s "named s"] by (simp add: fragment_parser_def)

text \<open>
  C8. When the document parses, \<open>parse_all_partners\<close> returns one record for each
  row-index marker, in the order in which the markers occur among the descendants of the
  document (document order). The record of a marker is extracted from its row fragment:
  the serialisation of the first \<open>tr\<close> in the chain of the marker's parent, the parent of
  that parent and so on up to the document, or the text \<open>None\<close> when the chain has no
  \<open>tr\<close>. So the number of records is the number of markers, a document without markers
  (the empty document among them) gives the empty list, and so does a document the parser
  rejects.
\<close>

theorem one_row_per_marker:
  "(bs html_content = Inr soup \<longrightarrow>
      parse_all_partners bs decode html_content =
        map (\<lambda>e. parse_partner_row bs
               (case List.find (is_tag ''tr'') (snd e) of None \<Rightarrow> ''None'' | Some tr \<Rightarrow> decode tr))
          (partner_rows soup)
      \<and> map fst (partner_rows soup) = filter row_marker (descendants soup)
      \<and> (\<forall>e\<in>set (partner_rows soup). ancestor_chain soup (fst e) (snd e))
      \<and> length (parse_all_partners bs decode html_content) =
          length (filter row_marker (descendants soup)))
   \<and> (bs html_content = Inr soup \<and> filter row_marker (descendants soup) = [] \<longrightarrow>
        parse_all_partners bs decode html_content = [])
   \<and> (bs html_content = Inl err \<longrightarrow> parse_all_partners bs decode html_content = [])"
proof (intro conjI impI ballI)
  assume p: "bs html_content = Inr soup"
  show r: "parse_all_partners bs decode html_content =
        map (\<lambda>e. parse_partner_row bs
               (case List.find (is_tag ''tr'') (snd e) of None \<Rightarrow> ''None'' | Some tr \<Rightarrow> decode tr))
          (partner_rows soup)"
    using p by (simp add: parse_all_partners_def rows_of_markers)
  show m: "map fst (partner_rows soup) = filter row_marker (descendants soup)"
    using partner_rows_markers[of soup] by (simp add: find_all_def)
  have "length (partner_rows soup) = length (map fst (partner_rows soup))" by simp
  then show "length (parse_all_partners bs decode html_content) =
          length (filter row_marker (descendants soup))"
    unfolding r m by simp
next
  fix e assume "e \<in> set (partner_rows soup)"
  then show "ancestor_chain soup (fst e) (snd e)" by (rule partner_rows_chain)
next
  assume "bs html_content = Inr soup \<and> filter row_marker (descendants soup) = []"
  then have p: "bs html_content = Inr soup" and "map fst (partner_rows soup) = []"
    using partner_rows_markers[of soup] by (simp_all add: find_all_def)
  then have "partner_rows soup = []" by simp
  with p show "parse_all_partners bs decode html_content = []"
    by (simp add: parse_all_partners_def)
next
  assume "bs html_content = Inl err"
  then show "parse_all_partners bs decode html_content = []"
    by (simp add: parse_all_partners_def)
qed

theorem one_row_per_marker_witness:
  "map (\<lambda>row. map_of row ''Name'') (parse_all_partners (fragment_parser two_rows) get_text ''<html>'')
     = [Some ''first'', Some ''second'']
   \<and> map (\<lambda>row. map_of row ''Name'') (parse_all_partners (fragment_parser loose_marker) get_text ''<html>'')
     = [Some ''None'']
   \<and> list_all (\<lambda>e. ancestor_chain two_rows (fst e) (snd e)) (partner_rows two_rows)
   \<and> length (parse_all_partners (parsed_as five_rows) get_text ''<html>'') = 5
   \<and> parse_all_partners (parsed_as name_row) get_text ''<html>'' = []
   \<and> parse_all_partners (parsed_as (document [])) get_text [] = []
   \<and> parse_all_partners failing_parser get_text ''<html>'' = []"
proof (intro conjI)
  have d: "fragment_parser two_rows ''<html>'' = Inr two_rows" by (simp add: fragment_parser_def)
  have "parse_all_partners (fragment_parser two_rows) get_text ''<html>'' =
        map (parse_partner_row (fragment_parser two_rows))
          (map (\<lambda>e. case List.find (is_tag ''tr'') (snd e) of None \<Rightarrow> ''None'' | Some tr \<Rightarrow> get_text tr)
             (partner_rows two_rows))"
    using one_row_per_marker [of "fragment_parser two_rows" "''<html>''" two_rows get_text] d
    by (simp only: map_map comp_def)
  then show "map (\<lambda>row. map_of row ''Name'')
       (parse_all_partners (fragment_parser two_rows) get_text ''<html>'')
     = [Some ''first'', Some ''second'']"
    by (simp add: fixture_fragments fragment_parser_name fixture_names)
  show "list_all (\<lambda>e. ancestor_chain two_rows (fst e) (snd e)) (partner_rows two_rows)"
    using one_row_per_marker [of "fragment_parser two_rows" "''<html>''" two_rows get_text] d
    unfolding list_all_iff by blast
next
  have d: "fragment_parser loose_marker ''<html>'' = Inr loose_marker"
    by (simp add: fragment_parser_def)
  have "parse_all_partners (fragment_parser loose_marker) get_text ''<html>'' =
        map (parse_partner_row (fragment_parser loose_marker))
          (map (\<lambda>e. case List.find (is_tag ''tr'') (snd e) of None \<Rightarrow> ''None'' | Some tr \<Rightarrow> get_text tr)
             (partner_rows loose_marker))"
    using one_row_per_marker [of "fragment_parser loose_marker" "''<html>''" loose_marker get_text] d
    by (simp only: map_map comp_def)
  then show "map (\<lambda>row. map_of row ''Name'')
       (parse_all_partners (fragment_parser loose_marker) get_text ''<html>'')
     = [Some ''None'']"
    by (simp add: fixture_fragments fragment_parser_name fixture_names)
next
  have "length (parse_all_partners (parsed_as five_rows) get_text ''<html>'') =
        length (filter row_marker (descendants five_rows))"
    using one_row_per_marker [of "parsed_as five_rows" "''<html>''" five_rows get_text]
      parsed_as_def [of five_rows "''<html>''"]
    by blast
  then show "length (parse_all_partners (parsed_as five_rows) get_text ''<html>'') = 5"
    by (simp only: marker_counts)
next
  show "parse_all_partners (parsed_as name_row) get_text ''<html>'' = []"
    using one_row_per_marker [of "parsed_as name_row" "''<html>''" name_row get_text]
      parsed_as_def [of name_row "''<html>''"] marker_counts(2)
    by blast
next
  show "parse_all_partners (parsed_as (document [])) get_text [] = []"
    using one_row_per_marker [of "parsed_as (document [])" "[]" "document []" get_text]
      parsed_as_def [of "document []" "[]"] marker_counts(3)
    by blast
next
  show "parse_all_partners failing_parser get_text ''<html>'' = []"
    using one_row_per_marker [of failing_parser "''<html>''" _ get_text ParserRejectedMarkup]
      failing_parser_def [of "''<html>''"]
    by blast
qed

end
